theory Spec2Isabelle
  imports Complex_Main "HOL-Library.Multiset" "HOL-Library.Product_Lexorder"
    "HOL-Library.Word"
begin

section \<open>JavaScript strings\<close>

text \<open>
  A JavaScript string is a sequence of UTF-16 code units. The texts that the listing
  browser searches (titles, sellers, descriptions, the search string) are carried as such:
  lists of 16-bit words. The other strings of the program (prices, addresses, categories,
  messages) are only compared, trimmed, or read character by character against ASCII
  classes; they are carried as \<open>string\<close>, whose \<open>char\<close> is a code unit below 256, and
  \<open>utf16\<close> takes such a string to the same sequence of code units. The functions on lists
  are stated once for both.
\<close>

type_synonym code_unit = "16 word"

type_synonym jsstring = "code_unit list"

definition utf16 :: "string \<Rightarrow> jsstring" where
  "utf16 s = map of_char s"

definition startsWith :: "'a list \<Rightarrow> 'a list \<Rightarrow> bool" where
  "startsWith s p = (take (length p) s = p)"

text \<open>
  \<open>s.includes(p)\<close>, here \<open>includes_str\<close>: \<open>p\<close> occurs in \<open>s\<close> at some position.
\<close>

fun includes_str :: "'a list \<Rightarrow> 'a list \<Rightarrow> bool" where
  "includes_str [] p = (p = [])"
| "includes_str (c # cs) p = (startsWith (c # cs) p \<or> includes_str cs p)"

subsection \<open>\<open>toLowerCase\<close>\<close>

text \<open>
  \<open>String.prototype.toLowerCase\<close> is the default case conversion of Unicode. It is
  modelled on the code units of Basic Latin and Latin-1, the Greek letters from \<open>U+0391\<close>
  to \<open>U+03CE\<close>, the capital I with dot above \<open>U+0130\<close> and the combining dot above
  \<open>U+0307\<close>; other code units are outside the model and stay as they are. In this range
  a capital maps to the code unit 32 higher, with two exceptions. The capital I with dot
  above becomes two code units, the small i and the combining dot. The capital sigma
  \<open>U+03A3\<close> becomes the final sigma \<open>U+03C2\<close> when a cased letter comes before it, with
  nothing but case-ignorable characters between, and no cased letter comes after it in the
  same way; otherwise it becomes \<open>U+03C3\<close>.
\<close>

definition isUpperCase :: "code_unit \<Rightarrow> bool" where
  "isUpperCase u =
     ((0x41 \<le> u \<and> u \<le> 0x5A) \<or> (0xC0 \<le> u \<and> u \<le> 0xD6) \<or> (0xD8 \<le> u \<and> u \<le> 0xDE) \<or>
      (0x391 \<le> u \<and> u \<le> 0x3A1) \<or> (0x3A3 \<le> u \<and> u \<le> 0x3AB))"

text \<open>The small letter of a single code unit (the simple mapping of Unicode).\<close>

definition toLowerUnit :: "code_unit \<Rightarrow> code_unit" where
  "toLowerUnit u = (if u = 0x130 then 0x69 else if isUpperCase u then u + 0x20 else u)"

definition isCased :: "code_unit \<Rightarrow> bool" where
  "isCased u =
     ((0x41 \<le> u \<and> u \<le> 0x5A) \<or> (0x61 \<le> u \<and> u \<le> 0x7A) \<or>
      u = 0xAA \<or> u = 0xB5 \<or> u = 0xBA \<or>
      (0xC0 \<le> u \<and> u \<le> 0xD6) \<or> (0xD8 \<le> u \<and> u \<le> 0xF6) \<or> (0xF8 \<le> u \<and> u \<le> 0xFF) \<or>
      u = 0x130 \<or> (0x391 \<le> u \<and> u \<le> 0x3A1) \<or> (0x3A3 \<le> u \<and> u \<le> 0x3CE))"

definition isCaseIgnorable :: "code_unit \<Rightarrow> bool" where
  "isCaseIgnorable u =
     (u \<in> set [0x27, 0x2E, 0x3A, 0x5E, 0x60, 0xA8, 0xAD, 0xAF, 0xB4, 0xB7, 0xB8, 0x307])"

text \<open>
  \<open>finalSigma front back\<close>: the condition on a capital sigma, \<open>front\<close> holding the code
  units in front of it, the nearest first, and \<open>back\<close> those behind it.
\<close>

definition finalSigma :: "jsstring \<Rightarrow> jsstring \<Rightarrow> bool" where
  "finalSigma front back =
     ((case dropWhile isCaseIgnorable front of [] \<Rightarrow> False | c # cs \<Rightarrow> isCased c) \<and>
      (case dropWhile isCaseIgnorable back of [] \<Rightarrow> True | c # cs \<Rightarrow> \<not> isCased c))"

fun lowerFrom :: "jsstring \<Rightarrow> jsstring \<Rightarrow> jsstring" where
  "lowerFrom front [] = []"
| "lowerFrom front (u # us) =
     (if u = 0x3A3 then [if finalSigma front us then 0x3C2 else 0x3C3]
      else if u = 0x130 then [0x69, 0x307]
      else [toLowerUnit u]) @
     lowerFrom (u # front) us"

definition toLowerCase :: "jsstring \<Rightarrow> jsstring" where
  "toLowerCase s = lowerFrom [] s"

text \<open>
  \<open>trim\<close> removes white space and line terminators at both ends: tab, line feed,
  vertical tab, form feed, carriage return, space and the no-break space.
\<close>

definition whiteSpaceChars :: string where
  "whiteSpaceChars = [CHR 0x09, CHR 0x0A, CHR 0x0B, CHR 0x0C, CHR 0x0D, CHR 0x20, CHR 0xA0]"

definition isWhiteSpace :: "char \<Rightarrow> bool" where
  "isWhiteSpace c = (c \<in> set whiteSpaceChars)"

definition trimStart :: "string \<Rightarrow> string" where
  "trimStart s = dropWhile isWhiteSpace s"

definition trimEnd :: "string \<Rightarrow> string" where
  "trimEnd s = rev (dropWhile isWhiteSpace (rev s))"

definition trim :: "string \<Rightarrow> string" where
  "trim s = trimEnd (trimStart s)"

section \<open>JavaScript numbers\<close>

text \<open>
  A Number is a binary64 value: not-a-number, an infinity, or a finite double, which is
  carried as the rational it denotes (the two zeros are identified: the program only
  compares numbers and subtracts them). \<open>roundDouble\<close> is the rounding every operation
  applies to its exact result: to the nearest double, ties to the even significand,
  overflowing to an infinity from \<open>2 ^ 1024\<close> on.
\<close>

datatype number = NaN | NegInf | Fin rat | PosInf

definition ipow :: "rat \<Rightarrow> int \<Rightarrow> rat" where
  "ipow b e = (if 0 \<le> e then b ^ nat e else 1 / b ^ nat (- e))"

function bitLength :: "int \<Rightarrow> nat" where
  "bitLength n = (if n \<le> 0 then 0 else Suc (bitLength (n div 2)))"
  by pat_completeness auto

termination
  by (relation "measure nat") auto

declare bitLength.simps [simp del]

text \<open>For \<open>0 < a\<close>, the exponent \<open>e\<close> with \<open>2 ^ e \<le> a < 2 ^ (e + 1)\<close>.\<close>

definition floorLog2 :: "rat \<Rightarrow> int" where
  "floorLog2 a =
     (let (n, d) = quotient_of a;
          k = int (bitLength n) - int (bitLength d)
      in if ipow 2 k \<le> a then k else k - 1)"

definition roundHalfEven :: "rat \<Rightarrow> int" where
  "roundHalfEven x =
     (let f = \<lfloor>x\<rfloor>; r = x - of_int f
      in if r < 1 / 2 then f else if 1 / 2 < r then f + 1 else if even f then f else f + 1)"

definition roundDouble :: "rat \<Rightarrow> number" where
  "roundDouble q =
     (if q = 0 then Fin 0
      else
        let a = \<bar>q\<bar>;
            e = max (floorLog2 a) (- 1022);
            ulp = ipow 2 (e - 52);
            v = of_int (roundHalfEven (a / ulp)) * ulp
        in if ipow 2 1024 \<le> v then (if 0 < q then PosInf else NegInf)
           else Fin (sgn q * v))"

text \<open>\<open>x - y\<close> on Numbers.\<close>

fun num_sub :: "number \<Rightarrow> number \<Rightarrow> number" where
  "num_sub NaN y = NaN"
| "num_sub x NaN = NaN"
| "num_sub PosInf PosInf = NaN"
| "num_sub NegInf NegInf = NaN"
| "num_sub PosInf y = PosInf"
| "num_sub NegInf y = NegInf"
| "num_sub (Fin a) PosInf = NegInf"
| "num_sub (Fin a) NegInf = PosInf"
| "num_sub (Fin a) (Fin b) = roundDouble (a - b)"

text \<open>\<open>x <= y\<close> on Numbers: false as soon as one side is not a number.\<close>

fun num_le :: "number \<Rightarrow> number \<Rightarrow> bool" where
  "num_le NaN y = False"
| "num_le x NaN = False"
| "num_le NegInf y = True"
| "num_le x PosInf = True"
| "num_le (Fin a) (Fin b) = (a \<le> b)"
| "num_le x y = False"

subsection \<open>\<open>parseFloat\<close> and \<open>parseInt\<close>\<close>

definition isDigit :: "char \<Rightarrow> bool" where
  "isDigit c = (c \<in> set ''0123456789'')"

definition isHexDigit :: "char \<Rightarrow> bool" where
  "isHexDigit c = (c \<in> set ''0123456789abcdefABCDEF'')"

text \<open>
  The value of a digit is its position in the digit string, a capital hexadecimal digit
  counting as the small one.
\<close>

definition digitValue :: "char \<Rightarrow> int" where
  "digitValue c =
     (if c \<in> set ''ABCDEF''
      then 10 + int (length (takeWhile (\<lambda>d. d \<noteq> c) ''ABCDEF''))
      else int (length (takeWhile (\<lambda>d. d \<noteq> c) ''0123456789abcdef'')))"

definition digitsValue :: "int \<Rightarrow> string \<Rightarrow> int" where
  "digitsValue radix ds = foldl (\<lambda>acc c. radix * acc + digitValue c) 0 ds"

definition splitSign :: "string \<Rightarrow> int \<times> string" where
  "splitSign s =
     (case s of
        [] \<Rightarrow> (1, s)
      | c # r \<Rightarrow> if c = CHR ''+'' then (1, r) else if c = CHR ''-'' then (- 1, r) else (1, s))"

text \<open>
  The exponent part at the head of \<open>s\<close>: \<open>e\<close> or \<open>E\<close>, an optional sign, and at least one
  digit; the exponent is 0 when there is no such part.
\<close>

definition exponentPart :: "string \<Rightarrow> int" where
  "exponentPart s =
     (case s of
        [] \<Rightarrow> 0
      | c # r \<Rightarrow>
          if c = CHR ''e'' \<or> c = CHR ''E''
          then (let (sg, t) = splitSign r; ds = takeWhile isDigit t
                in if ds = [] then 0 else sg * digitsValue 10 ds)
          else 0)"

text \<open>
  The mathematical value of the longest prefix of \<open>u\<close> that is an unsigned decimal literal
  (digits, an optional fraction, an optional exponent; at least one digit before the
  exponent), or \<open>None\<close> when no prefix is one.
\<close>

definition strDecimalValue :: "string \<Rightarrow> rat option" where
  "strDecimalValue u =
     (let ip = takeWhile isDigit u;
          r1 = dropWhile isDigit u;
          hasDot = (case r1 of [] \<Rightarrow> False | c # r \<Rightarrow> c = CHR ''.'');
          fp = (if hasDot then takeWhile isDigit (tl r1) else []);
          r2 = (if hasDot then dropWhile isDigit (tl r1) else r1)
      in if ip = [] \<and> fp = [] then None
         else Some (of_int (digitsValue 10 (ip @ fp)) *
                    ipow 10 (exponentPart r2 - int (length fp))))"

definition parseFloat :: "string \<Rightarrow> number" where
  "parseFloat s =
     (let (sg, u) = splitSign (trimStart s)
      in if startsWith u ''Infinity'' then (if sg = 1 then PosInf else NegInf)
         else case strDecimalValue u of
                None \<Rightarrow> NaN
              | Some v \<Rightarrow> roundDouble (of_int sg * v))"

text \<open>\<open>parseInt\<close> with no radix: base 16 after a \<open>0x\<close> or \<open>0X\<close> prefix, base 10 otherwise.\<close>

definition parseInt :: "string \<Rightarrow> number" where
  "parseInt s =
     (let (sg, u) = splitSign (trimStart s);
          hex = (startsWith u ''0x'' \<or> startsWith u ''0X'');
          ds = (if hex then takeWhile isHexDigit (drop 2 u) else takeWhile isDigit u)
      in if ds = [] then NaN
         else roundDouble (of_int (sg * digitsValue (if hex then 16 else 10) ds)))"

section \<open>Listings\<close>

text \<open>
  The types of \<open>types/marketplace\<close> as both components use them. \<open>listingType\<close> is one of
  the literals \<open>'standard'\<close> and \<open>'escrow'\<close>; an optional field is an \<open>option\<close>, \<open>None\<close> for
  \<open>undefined\<close>. \<open>listing_fields\<close> is what \<open>addItem\<close> receives; the store adds the identifier,
  the creation time (\<open>createdAt.getTime()\<close>, in milliseconds) and the like count. The fields
  \<open>id\<close> and \<open>image\<close> are named \<open>item_id\<close> and \<open>item_image\<close> here.
\<close>

datatype listing_type = Standard | Escrow

record listing_fields =
  title :: jsstring
  description :: jsstring
  price :: string
  category :: string
  item_image :: string
  seller :: jsstring
  escrowDuration :: number
  listingType :: listing_type
  escrowBuyerAddress :: "string option"

record marketplace_item = listing_fields +
  item_id :: nat
  createdAt :: int
  likes :: int

text \<open>
  \<open>ListingFormData\<close>: the form keeps every field as the text the user typed. Its fields
  carry the prefix \<open>form_\<close>, which keeps them apart from the listing's fields of the same
  names.
\<close>

record listing_form_data =
  form_title :: string
  form_description :: string
  form_price :: string
  form_category :: string
  form_escrowDuration :: string
  form_listingType :: listing_type
  form_escrowBuyerAddress :: string

section \<open>The listing browser (\<open>MarketplaceGrid\<close>)\<close>

text \<open>
  What the component reads from its hooks: the store's items and the current user's
  address (\<open>useMarketplace\<close>), the visibility predicate and the connection flag
  (\<open>useSession\<close>). The predicate is the session collaborator's and is left open.
\<close>

record grid_hooks =
  items :: "marketplace_item list"
  currentUserAddress :: jsstring
  canViewEscrowListing :: "string option \<Rightarrow> bool"
  isConnected :: bool

definition filteredItems :: "grid_hooks \<Rightarrow> jsstring \<Rightarrow> string \<Rightarrow> marketplace_item list" where
  "filteredItems h searchQuery categoryProp =
     filter (\<lambda>item.
        let matchesSearch =
              (includes_str (toLowerCase (title item)) (toLowerCase searchQuery) \<or>
               includes_str (toLowerCase (seller item)) (toLowerCase searchQuery));
            matchesCategory = (categoryProp = ''all'' \<or> category item = categoryProp);
            canView = (if listingType item = Escrow
                       then canViewEscrowListing h (escrowBuyerAddress item)
                       else True)
        in matchesSearch \<and> matchesCategory \<and> canView)
       (items h)"

subsection \<open>\<open>Array.prototype.sort\<close>\<close>

text \<open>
  The comparator's result is read through its sign, a not-a-number result counting as
  zero. ECMAScript requires the sort to be stable and, for a consistent comparator, to
  return the elements in the comparator's order; there is one such arrangement, so any
  stable sort computes it, and the model is insertion sort. (For a comparator that is not
  consistent the order is left to the implementation.)
\<close>

definition sortCompare :: "('a \<Rightarrow> 'a \<Rightarrow> number) \<Rightarrow> 'a \<Rightarrow> 'a \<Rightarrow> int" where
  "sortCompare cmp x y =
     (case cmp x y of NaN \<Rightarrow> 0 | NegInf \<Rightarrow> - 1 | PosInf \<Rightarrow> 1
      | Fin v \<Rightarrow> (if v < 0 then - 1 else if 0 < v then 1 else 0))"

fun insertSorted :: "('a \<Rightarrow> 'a \<Rightarrow> number) \<Rightarrow> 'a \<Rightarrow> 'a list \<Rightarrow> 'a list" where
  "insertSorted cmp x [] = [x]"
| "insertSorted cmp x (y # ys) =
     (if sortCompare cmp x y \<le> 0 then x # y # ys else y # insertSorted cmp x ys)"

definition arraySort :: "('a \<Rightarrow> 'a \<Rightarrow> number) \<Rightarrow> 'a list \<Rightarrow> 'a list" where
  "arraySort cmp xs = foldr (insertSorted cmp) xs []"

text \<open>The comparator of \<open>sortedItems\<close>: the \<open>switch\<close> on \<open>sortBy\<close>.\<close>

definition compareItems :: "string \<Rightarrow> marketplace_item \<Rightarrow> marketplace_item \<Rightarrow> number" where
  "compareItems sortBy a b =
     (if sortBy = ''price-low'' then num_sub (parseFloat (price a)) (parseFloat (price b))
      else if sortBy = ''price-high'' then num_sub (parseFloat (price b)) (parseFloat (price a))
      else if sortBy = ''popular'' then num_sub (Fin (of_int (likes b))) (Fin (of_int (likes a)))
      else if sortBy = ''recent''
        then num_sub (Fin (of_int (createdAt b))) (Fin (of_int (createdAt a)))
      else Fin 0)"

definition sortedItems :: "string \<Rightarrow> marketplace_item list \<Rightarrow> marketplace_item list" where
  "sortedItems sortBy filtered = arraySort (compareItems sortBy) filtered"

text \<open>
  The guard of the "Reserved for you" line, \<open>item.escrowBuyerAddress && isConnected\<close>: an
  optional string is truthy when it is defined and not empty.
\<close>

definition truthy :: "string option \<Rightarrow> bool" where
  "truthy v = (case v of None \<Rightarrow> False | Some a \<Rightarrow> a \<noteq> [])"

definition showsReservedForYou :: "grid_hooks \<Rightarrow> marketplace_item \<Rightarrow> bool" where
  "showsReservedForYou h item = (truthy (escrowBuyerAddress item) \<and> isConnected h)"

section \<open>The listing creator (\<open>CreateListingModal\<close>)\<close>

text \<open>
  The component's state (\<open>useState\<close>), with what its effects reach outside: \<open>isOpen\<close> is the
  parent's flag that \<open>onClose\<close> clears, \<open>toasts\<close> the notifications emitted so far,
  \<open>addItemCalls\<close> the records handed to the store's \<open>addItem\<close>, and \<open>resetTimers\<close> the
  number of pending reset callbacks that \<open>handleClose\<close> has scheduled. Of a \<open>File\<close> the
  component reads the media type and the size.
\<close>

record image_file =
  fileType :: string
  fileSize :: nat

datatype toast = ToastError string | ToastSuccess string

record modal_state =
  formData :: listing_form_data
  selectedImage :: "image_file option"
  imagePreview :: "string option"
  isDragging :: bool
  isSubmitting :: bool
  isOpen :: bool
  toasts :: "toast list"
  addItemCalls :: "listing_fields list"
  resetTimers :: nat

definition initialFormData :: listing_form_data where
  "initialFormData =
     \<lparr>form_title = [], form_description = [], form_price = [], form_category = ''art'',
      form_escrowDuration = ''7'', form_listingType = Standard,
      form_escrowBuyerAddress = []\<rparr>"

text \<open>
  The regular expression \<open>/^[a-fA-F0-9]{64}$/\<close>: \<open>matchRepeat cls n s\<close> holds when \<open>s\<close> is
  exactly \<open>n\<close> characters of the class (\<open>$\<close> without a flag matches at the end of the input
  only).
\<close>

definition hexClass :: "char \<Rightarrow> bool" where
  "hexClass c = (c \<in> set ''abcdef'' \<or> c \<in> set ''ABCDEF'' \<or> c \<in> set ''0123456789'')"

fun matchRepeat :: "(char \<Rightarrow> bool) \<Rightarrow> nat \<Rightarrow> string \<Rightarrow> bool" where
  "matchRepeat cls n [] = (n = 0)"
| "matchRepeat cls n (c # cs) = (n \<noteq> 0 \<and> cls c \<and> matchRepeat cls (n - 1) cs)"

definition validateSuiAddress :: "string \<Rightarrow> bool" where
  "validateSuiAddress address =
     (let cleanAddress = (if startsWith address ''0x'' then drop 2 address else address)
      in matchRepeat hexClass 64 cleanAddress)"

text \<open>
  \<open>validateForm\<close> returns its verdict and the notifications it emitted on the way.
\<close>

definition validateForm :: "modal_state \<Rightarrow> toast list \<times> bool" where
  "validateForm s =
     (let fd = formData s in
      if selectedImage s = None \<or> \<not> truthy (imagePreview s)
        then ([ToastError ''Please upload an image for your listing''], False)
      else if trim (form_title fd) = []
        then ([ToastError ''Please enter a title for your listing''], False)
      else if trim (form_description fd) = []
        then ([ToastError ''Please enter a description for your listing''], False)
      else if form_price fd = [] \<or> num_le (parseFloat (form_price fd)) (Fin 0)
        then ([ToastError ''Please enter a valid price''], False)
      else if form_listingType fd = Escrow
        then (if trim (form_escrowBuyerAddress fd) = []
                then ([ToastError
                   ''Please enter the buyer's Sui wallet address for escrow listing''], False)
              else if \<not> validateSuiAddress (form_escrowBuyerAddress fd)
                then ([ToastError
                   ''Please enter a valid Sui wallet address (64 character hex string)''], False)
              else ([], True))
      else ([], True))"

text \<open>
  The record \<open>handleSubmit\<close> hands to \<open>addItem\<close>, from the form data and the preview of
  the render in which the handler was created. \<open>imagePreview!\<close> drops the \<open>null\<close> that
  validation has excluded. The form's title and description go into the record as they
  are: \<open>utf16\<close> only changes the type they are carried in.
\<close>

definition nonNull :: "string option \<Rightarrow> string" where
  "nonNull v = (case v of None \<Rightarrow> [] | Some p \<Rightarrow> p)"

definition newListing :: "listing_form_data \<Rightarrow> string option \<Rightarrow> listing_fields" where
  "newListing fd preview =
     \<lparr>title = utf16 (form_title fd),
      description = utf16 (form_description fd),
      price = form_price fd,
      category = form_category fd,
      item_image = nonNull preview,
      seller = utf16 ''CurrentUser'',
      escrowDuration = parseInt (form_escrowDuration fd),
      listingType = form_listingType fd,
      escrowBuyerAddress =
        (if form_listingType fd = Escrow then Some (form_escrowBuyerAddress fd) else None)\<rparr>"

text \<open>
  \<open>handleSubmit\<close> in three parts. \<open>submitBegin\<close> runs up to the \<open>await\<close>: it validates and
  raises the submitting flag. \<open>submitResume\<close> is the rest of the \<open>try\<close> block, run on the
  state found when the delay is over: \<open>delayResolves\<close> tells whether the awaited promise
  resolved, \<open>addItemReturns\<close> whether the store's \<open>addItem\<close> returned rather than threw.
  The success notifications are the source's without their leading pictograph, which is
  outside the modelled character range.
\<close>

definition submitBegin :: "modal_state \<Rightarrow> modal_state \<times> bool" where
  "submitBegin s =
     (case validateForm s of
        (ts, False) \<Rightarrow> (s\<lparr>toasts := toasts s @ ts\<rparr>, False)
      | (ts, True) \<Rightarrow> (s\<lparr>toasts := toasts s @ ts, isSubmitting := True\<rparr>, True))"

definition submitFinally :: "modal_state \<Rightarrow> modal_state" where
  "submitFinally s = s\<lparr>isSubmitting := False\<rparr>"

definition submitCatch :: "modal_state \<Rightarrow> modal_state" where
  "submitCatch s =
     submitFinally (s\<lparr>toasts := toasts s @
        [ToastError ''Failed to create listing. Please try again.'']\<rparr>)"

definition submitResume ::
  "bool \<Rightarrow> (listing_fields \<Rightarrow> bool) \<Rightarrow> listing_form_data \<Rightarrow> string option \<Rightarrow>
   modal_state \<Rightarrow> modal_state" where
  "submitResume delayResolves addItemReturns fd preview s =
     (if \<not> delayResolves then submitCatch s
      else
        let item = newListing fd preview;
            s1 = s\<lparr>addItemCalls := addItemCalls s @ [item]\<rparr>
        in if \<not> addItemReturns item then submitCatch s1
           else
             let message = (if form_listingType fd = Escrow
                            then ''Escrow listing created successfully!''
                            else ''Listing created successfully!'')
             in submitFinally
                  (s1\<lparr>toasts := toasts s1 @ [ToastSuccess message],
                      formData := initialFormData,
                      selectedImage := None,
                      imagePreview := None,
                      isOpen := False\<rparr>))"

definition handleSubmit ::
  "bool \<Rightarrow> (listing_fields \<Rightarrow> bool) \<Rightarrow> modal_state \<Rightarrow> modal_state" where
  "handleSubmit delayResolves addItemReturns s =
     (case submitBegin s of
        (s', False) \<Rightarrow> s'
      | (s', True) \<Rightarrow>
          submitResume delayResolves addItemReturns (formData s) (imagePreview s) s')"

text \<open>
  \<open>handleClose\<close> returns at once while submitting; otherwise it calls \<open>onClose\<close> and
  schedules the reset, which \<open>closeTimeout\<close> performs 300 ms later.
\<close>

definition handleClose :: "modal_state \<Rightarrow> modal_state" where
  "handleClose s =
     (if isSubmitting s then s
      else s\<lparr>isOpen := False, resetTimers := Suc (resetTimers s)\<rparr>)"

definition closeTimeout :: "modal_state \<Rightarrow> modal_state" where
  "closeTimeout s =
     s\<lparr>formData := initialFormData,
       selectedImage := None,
       imagePreview := None,
       isDragging := False,
       resetTimers := resetTimers s - 1\<rparr>"

section \<open>Example inputs\<close>

text \<open>Concrete inputs at which the theorems below are instantiated.\<close>

definition exampleAddress :: string where
  "exampleAddress = ''0x0123456789abcdefABCDEF0123456789abcdefABCDEF0123456789abcdefABCD''"

definition exampleForm :: listing_form_data where
  "exampleForm =
     \<lparr>form_title = ''Rare card'', form_description = ''Mint condition'', form_price = ''2'',
      form_category = ''art'', form_escrowDuration = ''7'', form_listingType = Escrow,
      form_escrowBuyerAddress = exampleAddress\<rparr>"

definition exampleState :: modal_state where
  "exampleState =
     \<lparr>formData = exampleForm,
      selectedImage = Some \<lparr>fileType = ''image/png'', fileSize = 2048\<rparr>,
      imagePreview = Some ''data:image/png;base64,iVBORw0KGgo='',
      isDragging = False, isSubmitting = False, isOpen = True,
      toasts = [], addItemCalls = [], resetTimers = 0\<rparr>"

definition standardState :: modal_state where
  "standardState =
     exampleState\<lparr>formData :=
       exampleForm\<lparr>form_listingType := Standard, form_escrowBuyerAddress := []\<rparr>\<rparr>"

definition cardItem :: marketplace_item where
  "cardItem =
     \<lparr>title = utf16 ''Rare Card'', description = utf16 ''Mint condition'', price = ''2'',
      category = ''art'', item_image = ''card.png'', seller = utf16 ''alice'',
      escrowDuration = Fin 7, listingType = Standard, escrowBuyerAddress = None,
      item_id = 1, createdAt = 1000, likes = 5\<rparr>"

definition coinItem :: marketplace_item where
  "coinItem =
     \<lparr>title = utf16 ''Gold Coin'', description = utf16 ''Reserved'', price = ''0.5'',
      category = ''collectibles'', item_image = ''coin.png'', seller = utf16 ''Bob'',
      escrowDuration = Fin 14, listingType = Escrow, escrowBuyerAddress = Some exampleAddress,
      item_id = 2, createdAt = 3000, likes = 9\<rparr>"

definition songItem :: marketplace_item where
  "songItem =
     \<lparr>title = utf16 ''Song'', description = utf16 ''Demo tape'', price = ''10'',
      category = ''music'', item_image = ''song.png'', seller = utf16 ''carol'',
      escrowDuration = Fin 7, listingType = Standard, escrowBuyerAddress = None,
      item_id = 3, createdAt = 2000, likes = 1\<rparr>"


definition sellerHooks :: grid_hooks where
  "sellerHooks =
     \<lparr>items = [cardItem, coinItem, songItem], currentUserAddress = utf16 ''Bob'',
      canViewEscrowListing = (\<lambda>a. True), isConnected = True\<rparr>"

text \<open>
  A listing with the Greek title \<open>U+039F U+0394 U+039F U+03A3\<close> (the word for street, in
  capitals, ending in a capital sigma), in a store of its own, and the search string that
  is the capital sigma alone.
\<close>

definition streetItem :: marketplace_item where
  "streetItem =
     \<lparr>title = [0x39F, 0x394, 0x39F, 0x3A3], description = utf16 ''Street sign'', price = ''3'',
      category = ''art'', item_image = ''sign.png'', seller = utf16 ''dora'',
      escrowDuration = Fin 7, listingType = Standard, escrowBuyerAddress = None,
      item_id = 4, createdAt = 4000, likes = 0\<rparr>"


definition sigmaQuery :: jsstring where
  "sigmaQuery = [0x3A3]"



section \<open>The specification's predicates\<close>

text \<open>
  The predicates below follow the wording of the specification; the theorems compare the
  program with them.
\<close>

text \<open>
  The required address shape: after an optional leading \<open>0x\<close> is stripped, exactly 64
  characters, each a hexadecimal digit (0-9, a-f, A-F).
\<close>

definition stripHexPrefix :: "string \<Rightarrow> string" where
  "stripHexPrefix a = (if take 2 a = ''0x'' then drop 2 a else a)"

definition specHexDigit :: "char \<Rightarrow> bool" where
  "specHexDigit c = (c \<in> set ''0123456789abcdefABCDEF'')"

definition addressShape :: "string \<Rightarrow> bool" where
  "addressShape a =
     (length (stripHexPrefix a) = 64 \<and> list_all specHexDigit (stripHexPrefix a))"

text \<open>
  The price rule: the price is present and parses to a value strictly greater than zero.
\<close>

definition isPositive :: "number \<Rightarrow> bool" where
  "isPositive x = (case x of PosInf \<Rightarrow> True | Fin v \<Rightarrow> 0 < v | _ \<Rightarrow> False)"

definition pricePositive :: "string \<Rightarrow> bool" where
  "pricePositive p = (p \<noteq> [] \<and> isPositive (parseFloat p))"

text \<open>
  The validation rules in the order of the specification, each with its rejection message:
  a staged image, a title and a description that are not blank, a price that is present
  and strictly greater than zero, and for an escrow listing a buyer address that is not
  blank and has the required shape. The first rule that fails decides the rejection.
\<close>

definition imageStaged :: "modal_state \<Rightarrow> bool" where
  "imageStaged s = (selectedImage s \<noteq> None \<and> truthy (imagePreview s))"

definition validationRules :: "modal_state \<Rightarrow> (bool \<times> string) list" where
  "validationRules s =
     (let fd = formData s in
      [(imageStaged s, ''Please upload an image for your listing''),
       (trim (form_title fd) \<noteq> [], ''Please enter a title for your listing''),
       (trim (form_description fd) \<noteq> [], ''Please enter a description for your listing''),
       (pricePositive (form_price fd), ''Please enter a valid price''),
       (if form_listingType fd = Escrow then trim (form_escrowBuyerAddress fd) \<noteq> [] else True,
        ''Please enter the buyer's Sui wallet address for escrow listing''),
       (if form_listingType fd = Escrow then addressShape (form_escrowBuyerAddress fd) else True,
        ''Please enter a valid Sui wallet address (64 character hex string)'')])"

definition firstFailure :: "(bool \<times> string) list \<Rightarrow> string option" where
  "firstFailure rules = map_option snd (find (\<lambda>rule. \<not> fst rule) rules)"

definition verdict :: "string option \<Rightarrow> toast list \<times> bool" where
  "verdict failure = (case failure of None \<Rightarrow> ([], True) | Some msg \<Rightarrow> ([ToastError msg], False))"

text \<open>
  \<open>reachesPriceRule\<close> says that the rules before the price rule pass, and \<open>priceRejected\<close>
  that validation ends with the price rule's rejection.
\<close>

definition reachesPriceRule :: "modal_state \<Rightarrow> bool" where
  "reachesPriceRule s =
     (imageStaged s \<and> trim (form_title (formData s)) \<noteq> [] \<and>
      trim (form_description (formData s)) \<noteq> [])"

definition priceRejected :: "modal_state \<Rightarrow> bool" where
  "priceRejected s = (validateForm s = ([ToastError ''Please enter a valid price''], False))"








section \<open>Notions used in the proofs\<close>

text \<open>
  Every finite double is a multiple of the least subnormal one, \<open>2\<close> to the \<open>- 1074\<close>; such
  values are said to lie on the grid. \<open>signOf\<close> is the sign the sort reads off a comparator
  result. \<open>numKey\<close> places the numbers other than not-a-number in their order, the
  infinities at the ends, and \<open>numKeyDesc\<close> in the opposite order.
\<close>

definition leastSubnormal :: rat where
  "leastSubnormal = ipow 2 (- 1074)"

definition onGrid :: "number \<Rightarrow> bool" where
  "onGrid x = (case x of Fin v \<Rightarrow> v / leastSubnormal \<in> \<int> | _ \<Rightarrow> True)"

definition signOf :: "number \<Rightarrow> int" where
  "signOf x =
     (case x of NaN \<Rightarrow> 0 | NegInf \<Rightarrow> - 1 | PosInf \<Rightarrow> 1
      | Fin v \<Rightarrow> (if v < 0 then - 1 else if 0 < v then 1 else 0))"

definition numKey :: "number \<Rightarrow> int \<times> rat" where
  "numKey x = (case x of NaN \<Rightarrow> (2, 0) | NegInf \<Rightarrow> (- 1, 0) | Fin v \<Rightarrow> (0, v) | PosInf \<Rightarrow> (1, 0))"

definition numKeyDesc :: "number \<Rightarrow> int \<times> rat" where
  "numKeyDesc x =
     (case x of NaN \<Rightarrow> (2, 0) | NegInf \<Rightarrow> (1, 0) | Fin v \<Rightarrow> (0, - v) | PosInf \<Rightarrow> (- 1, 0))"

text \<open>The numeric price of a listing: what \<open>parseFloat\<close> reads from its price string.\<close>

definition priceOf :: "marketplace_item \<Rightarrow> number" where
  "priceOf item = parseFloat (price item)"

section \<open>The buyer-address rule\<close>

lemma matchRepeat_iff: "matchRepeat cls n s \<longleftrightarrow> length s = n \<and> list_all cls s"
proof (induction s arbitrary: n)
  case Nil
  show ?case by auto
next
  case (Cons c cs)
  show ?case by (cases n) (auto simp: Cons.IH)
qed

lemma hexClass_spec: "hexClass c = specHexDigit c"
  by (auto simp: hexClass_def specHexDigit_def)

lemma hexClass_not_white: "hexClass c \<Longrightarrow> \<not> isWhiteSpace c"
  by (auto simp: hexClass_def isWhiteSpace_def whiteSpaceChars_def)

lemma trim_eq_Nil: "trim s = [] \<longleftrightarrow> list_all isWhiteSpace s"
proof -
  have "trim s = [] \<longleftrightarrow> (\<forall>x\<in>set (dropWhile isWhiteSpace s). isWhiteSpace x)"
    by (simp add: trim_def trimEnd_def trimStart_def dropWhile_eq_Nil_conv)
  also have "\<dots> \<longleftrightarrow> dropWhile isWhiteSpace s = []"
  proof
    assume all: "\<forall>x\<in>set (dropWhile isWhiteSpace s). isWhiteSpace x"
    show "dropWhile isWhiteSpace s = []"
    proof (rule ccontr)
      assume ne: "dropWhile isWhiteSpace s \<noteq> []"
      then have "\<not> isWhiteSpace (hd (dropWhile isWhiteSpace s))"
        by (rule hd_dropWhile)
      moreover have "hd (dropWhile isWhiteSpace s) \<in> set (dropWhile isWhiteSpace s)"
        using ne by simp
      ultimately show False using all by blast
    qed
  qed (auto dest: set_dropWhileD)
  also have "\<dots> \<longleftrightarrow> list_all isWhiteSpace s"
    by (simp add: dropWhile_eq_Nil_conv list_all_iff)
  finally show ?thesis .
qed

lemma startsWith_0x: "startsWith a ''0x'' \<longleftrightarrow> take 2 a = ''0x''"
  by (simp add: startsWith_def numeral_2_eq_2)

lemma validateSuiAddress_iff: "validateSuiAddress a \<longleftrightarrow> addressShape a"
  by (simp add: validateSuiAddress_def addressShape_def stripHexPrefix_def startsWith_0x
      matchRepeat_iff hexClass_spec [abs_def] Let_def)

lemma validateSuiAddress_not_blank:
  assumes "validateSuiAddress a"
  shows "trim a \<noteq> []"
proof -
  define r where "r = (if startsWith a ''0x'' then drop 2 a else a)"
  from assms have len: "length r = 64" and hex: "list_all hexClass r"
    by (simp_all add: validateSuiAddress_def matchRepeat_iff Let_def r_def)
  from len have "r \<noteq> []" by auto
  then obtain c where c: "c \<in> set r" using hd_in_set by blast
  with hex have "hexClass c" by (simp add: list_all_iff)
  then have "\<not> isWhiteSpace c" by (rule hexClass_not_white)
  moreover have "c \<in> set a"
  proof (cases "startsWith a ''0x''")
    case True
    with c have "c \<in> set (drop 2 a)" by (simp add: r_def)
    then show ?thesis by (rule in_set_dropD)
  next
    case False
    with c show ?thesis by (simp add: r_def)
  qed
  ultimately have "\<not> list_all isWhiteSpace a" unfolding list_all_iff by blast
  then show ?thesis by (simp add: trim_eq_Nil)
qed

text \<open>
  Claim C2. For every string \<open>a\<close>, the escrow buyer-address validation accepts \<open>a\<close> if and
  only if, after an optional leading \<open>0x\<close> is stripped, the remainder is exactly 64
  hexadecimal digits. This holds of \<open>validateSuiAddress\<close> alone and of the two address
  checks of \<open>validateForm\<close> together (not blank after trimming, then the shape). In
  particular \<open>0x\<close> followed by 64 hexadecimal digits passes, a remainder of 63 characters
  fails, and a remainder with a character that is not a hexadecimal digit fails.
\<close>

theorem validateSuiAddress_shape:
  "(validateSuiAddress a \<longleftrightarrow> addressShape a) \<and>
   (trim a \<noteq> [] \<and> validateSuiAddress a \<longleftrightarrow> addressShape a) \<and>
   (length r = 64 \<and> list_all specHexDigit r \<longrightarrow> validateSuiAddress (''0x'' @ r)) \<and>
   (length (stripHexPrefix a) = 63 \<longrightarrow> \<not> validateSuiAddress a) \<and>
   (\<not> list_all specHexDigit (stripHexPrefix a) \<longrightarrow> \<not> validateSuiAddress a)"
proof -
  have 1: "validateSuiAddress a \<longleftrightarrow> addressShape a" by (rule validateSuiAddress_iff)
  have 2: "trim a \<noteq> [] \<and> validateSuiAddress a \<longleftrightarrow> addressShape a"
    using 1 validateSuiAddress_not_blank by blast
  have 3: "length r = 64 \<and> list_all specHexDigit r \<longrightarrow> validateSuiAddress (''0x'' @ r)"
    by (simp add: validateSuiAddress_iff addressShape_def stripHexPrefix_def)
  have 4: "length (stripHexPrefix a) = 63 \<longrightarrow> \<not> validateSuiAddress a"
    by (simp add: validateSuiAddress_iff addressShape_def)
  have 5: "\<not> list_all specHexDigit (stripHexPrefix a) \<longrightarrow> \<not> validateSuiAddress a"
    by (simp add: validateSuiAddress_iff addressShape_def)
  from 1 2 3 4 5 show ?thesis by blast
qed

text \<open>The three cases of claim C2 at concrete addresses.\<close>

theorem validateSuiAddress_shape_witness:
  "validateSuiAddress
     (''0x'' @ ''0123456789abcdefABCDEF0123456789abcdefABCDEF0123456789abcdefABCD'') \<and>
   \<not> validateSuiAddress ''0123456789abcdefABCDEF0123456789abcdefABCDEF0123456789abcdefABC'' \<and>
   \<not> validateSuiAddress ''0x0123456789abcdefABCDEF0123456789abcdefABCDEF0123456789abcdefABCg''"
proof -
  have len: "length ''0123456789abcdefABCDEF0123456789abcdefABCDEF0123456789abcdefABCD'' = 64"
    by simp
  have hex: "list_all specHexDigit
      ''0123456789abcdefABCDEF0123456789abcdefABCDEF0123456789abcdefABCD''"
    by (simp add: specHexDigit_def)
  have short: "length (stripHexPrefix
      ''0123456789abcdefABCDEF0123456789abcdefABCDEF0123456789abcdefABC'') = 63"
    by (simp add: stripHexPrefix_def)
  have bad: "\<not> list_all specHexDigit (stripHexPrefix
      ''0x0123456789abcdefABCDEF0123456789abcdefABCDEF0123456789abcdefABCg'')"
    by (simp add: specHexDigit_def stripHexPrefix_def)
  show ?thesis
    using validateSuiAddress_shape
            [where r = "''0123456789abcdefABCDEF0123456789abcdefABCDEF0123456789abcdefABCD''"]
          validateSuiAddress_shape
            [where a = "''0123456789abcdefABCDEF0123456789abcdefABCDEF0123456789abcdefABC''"]
          validateSuiAddress_shape
            [where a = "''0x0123456789abcdefABCDEF0123456789abcdefABCDEF0123456789abcdefABCg''"]
          len hex short bad
    by blast
qed

section \<open>Form validation\<close>

lemma num_le_zero: "x \<noteq> NaN \<Longrightarrow> num_le x (Fin 0) = (\<not> isPositive x)"
  by (cases x) (auto simp: isPositive_def)

lemma price_test:
  assumes "p = [] \<or> parseFloat p \<noteq> NaN"
  shows "(p = [] \<or> num_le (parseFloat p) (Fin 0)) = (\<not> pricePositive p)"
  using assms by (auto simp: pricePositive_def num_le_zero)

text \<open>
  Where the price is empty or \<open>parseFloat\<close> reads a number from it, validation returns the
  verdict of the first rule that fails, in the order of the specification.
\<close>

lemma validateForm_first_failure:
  assumes "form_price (formData s) = [] \<or> parseFloat (form_price (formData s)) \<noteq> NaN"
  shows "validateForm s = verdict (firstFailure (validationRules s))"
  using price_test [OF assms]
  by (simp add: validateForm_def validationRules_def firstFailure_def verdict_def
      imageStaged_def validateSuiAddress_iff Let_def)

lemma validationRules_distinct: "distinct (map snd (validationRules s))"
  by (simp add: validationRules_def Let_def)

lemma validateForm_no_image:
  "\<not> imageStaged s \<Longrightarrow>
   validateForm s = ([ToastError ''Please upload an image for your listing''], False)"
  by (simp add: validateForm_def imageStaged_def Let_def)

lemma validateForm_toasts: "snd (validateForm s) \<Longrightarrow> fst (validateForm s) = []"
  by (simp add: validateForm_def Let_def split: if_splits)

lemma validateForm_one_toast: "length (fst (validateForm s)) \<le> 1"
  by (simp add: validateForm_def Let_def)

text \<open>The example states pass validation.\<close>

lemma parseFloat_2: "parseFloat ''2'' = Fin 2"
  by code_simp

lemma exampleAddress_shape: "addressShape exampleAddress"
  by (simp add: addressShape_def exampleAddress_def stripHexPrefix_def specHexDigit_def)

lemma trim_example:
  "trim ''Rare card'' = ''Rare card''" "trim ''Mint condition'' = ''Mint condition''"
  "trim exampleAddress = exampleAddress"
  by (simp_all add: trim_def trimStart_def trimEnd_def isWhiteSpace_def whiteSpaceChars_def
      exampleAddress_def)

lemma exampleAddress_not_Nil: "exampleAddress \<noteq> []"
  by (simp add: exampleAddress_def)

lemma validateForm_exampleState: "validateForm exampleState = ([], True)"
  by (simp add: validateForm_def exampleState_def exampleForm_def Let_def truthy_def
      parseFloat_2 trim_example validateSuiAddress_iff exampleAddress_shape
      exampleAddress_not_Nil)

lemma validateForm_standardState: "validateForm standardState = ([], True)"
  by (simp add: validateForm_def standardState_def exampleState_def exampleForm_def Let_def
      truthy_def parseFloat_2 trim_example)



section \<open>The price rule\<close>

lemma parseFloat_0: "parseFloat ''0'' = Fin 0"
  by code_simp

lemma parseFloat_minus_1: "parseFloat ''-1'' = Fin (- 1)"
  by code_simp

lemma parseFloat_cent: "parseFloat ''0.01'' = Fin (5764607523034235 / 2 ^ 59)"
  by code_simp

lemma priceRejected_iff:
  assumes "reachesPriceRule s"
  shows "priceRejected s \<longleftrightarrow>
         form_price (formData s) = [] \<or> num_le (parseFloat (form_price (formData s))) (Fin 0)"
  using assms
  by (simp add: priceRejected_def reachesPriceRule_def imageStaged_def validateForm_def Let_def)

lemma price_rule_rejects:
  assumes "form_price (formData s) = [] \<or> num_le (parseFloat (form_price (formData s))) (Fin 0)"
  shows "\<not> snd (validateForm s)"
  using assms by (simp add: validateForm_def Let_def)

text \<open>
  The price rule on the prices that are empty or numbers. Where the earlier rules pass,
  validation ends with the price rejection exactly when the price is empty or
  \<open>parseFloat\<close> of it is a number not above zero; so for these prices validation rejects
  unless the price is present and strictly greater than zero. The prices \<open>0\<close> and \<open>-1\<close>
  are rejected and \<open>0.01\<close> passes the rule.
\<close>

lemma price_rule:
  "(reachesPriceRule s \<longrightarrow>
      (priceRejected s \<longleftrightarrow>
         form_price (formData s) = [] \<or>
         num_le (parseFloat (form_price (formData s))) (Fin 0))) \<and>
   (form_price (formData s) = [] \<or> parseFloat (form_price (formData s)) \<noteq> NaN \<longrightarrow>
      (\<not> pricePositive (form_price (formData s)) \<longrightarrow> \<not> snd (validateForm s)) \<and>
      (reachesPriceRule s \<longrightarrow>
         (priceRejected s \<longleftrightarrow> \<not> pricePositive (form_price (formData s))))) \<and>
   (reachesPriceRule s \<and> form_price (formData s) \<in> {''0'', ''-1''} \<longrightarrow> priceRejected s) \<and>
   (form_price (formData s) = ''0.01'' \<longrightarrow> \<not> priceRejected s)"
proof -
  let ?p = "form_price (formData s)"
  have numeric: "(?p = [] \<or> num_le (parseFloat ?p) (Fin 0)) = (\<not> pricePositive ?p)"
    if "?p = [] \<or> parseFloat ?p \<noteq> NaN"
    using that by (auto simp: pricePositive_def num_le_zero)
  have 1: "reachesPriceRule s \<longrightarrow>
      (priceRejected s \<longleftrightarrow> ?p = [] \<or> num_le (parseFloat ?p) (Fin 0))"
    using priceRejected_iff by blast
  have 2: "?p = [] \<or> parseFloat ?p \<noteq> NaN \<longrightarrow>
      (\<not> pricePositive ?p \<longrightarrow> \<not> snd (validateForm s)) \<and>
      (reachesPriceRule s \<longrightarrow> (priceRejected s \<longleftrightarrow> \<not> pricePositive ?p))"
    using numeric price_rule_rejects [of s] priceRejected_iff [of s] by blast
  have 3: "reachesPriceRule s \<and> ?p \<in> {''0'', ''-1''} \<longrightarrow> priceRejected s"
    using priceRejected_iff [of s] by (auto simp: parseFloat_0 parseFloat_minus_1)
  have 4: "?p = ''0.01'' \<longrightarrow> \<not> priceRejected s"
  proof
    assume p: "?p = ''0.01''"
    have "\<not> num_le (parseFloat ''0.01'') (Fin 0)" by (simp add: parseFloat_cent)
    with p show "\<not> priceRejected s"
      by (simp add: priceRejected_def validateForm_def Let_def)
  qed
  from 1 2 3 4 show ?thesis by blast
qed

text \<open>The price rule at the prices \<open>0\<close>, \<open>-1\<close>, the empty string, \<open>0.01\<close> and \<open>2\<close>.\<close>

lemma price_rule_examples:
  "priceRejected (exampleState\<lparr>formData := exampleForm\<lparr>form_price := ''0''\<rparr>\<rparr>) \<and>
   priceRejected (exampleState\<lparr>formData := exampleForm\<lparr>form_price := ''-1''\<rparr>\<rparr>) \<and>
   priceRejected (exampleState\<lparr>formData := exampleForm\<lparr>form_price := []\<rparr>\<rparr>) \<and>
   \<not> priceRejected (exampleState\<lparr>formData := exampleForm\<lparr>form_price := ''0.01''\<rparr>\<rparr>) \<and>
   \<not> priceRejected exampleState"
proof -
  let ?s = "\<lambda>p. exampleState\<lparr>formData := exampleForm\<lparr>form_price := p\<rparr>\<rparr>"
  have r: "reachesPriceRule (?s p)" for p
    by (simp add: reachesPriceRule_def imageStaged_def exampleState_def exampleForm_def
        truthy_def trim_example)
  have p: "form_price (formData (?s p)) = p" for p by simp
  have e: "exampleState = ?s ''2''" by (simp add: exampleState_def exampleForm_def)
  have pos: "pricePositive ''2''" "parseFloat ''2'' \<noteq> NaN"
    by (simp_all add: pricePositive_def isPositive_def parseFloat_2)
  have a: "priceRejected (?s ''0'')"
    using price_rule [of "?s ''0''"] r [of "''0''"] by (simp only: p) blast
  have b: "priceRejected (?s ''-1'')"
    using price_rule [of "?s ''-1''"] r [of "''-1''"] by (simp only: p) blast
  have c: "priceRejected (?s [])"
    using price_rule [of "?s []"] r [of "[]"] by (simp only: p) blast
  have d: "\<not> priceRejected (?s ''0.01'')"
    using price_rule [of "?s ''0.01''"] by (simp only: p) blast
  have "\<not> priceRejected (?s ''2'')"
    using price_rule [of "?s ''2''"] r [of "''2''"] pos by (simp only: p) blast
  with e have f: "\<not> priceRejected exampleState" by simp
  from a b c d f show ?thesis by blast
qed


section \<open>Submitting and closing the form\<close>

lemma submitBegin_valid:
  "snd (validateForm s) \<Longrightarrow> submitBegin s = (s\<lparr>isSubmitting := True\<rparr>, True)"
  using validateForm_toasts [of s]
  by (cases "validateForm s") (simp add: submitBegin_def)

lemma submitBegin_invalid:
  "\<not> snd (validateForm s) \<Longrightarrow>
   submitBegin s = (s\<lparr>toasts := toasts s @ fst (validateForm s)\<rparr>, False)"
  by (cases "validateForm s") (simp add: submitBegin_def)

lemma handleSubmit_valid:
  "snd (validateForm s) \<Longrightarrow>
   handleSubmit delayResolves addItemReturns s =
     submitResume delayResolves addItemReturns (formData s) (imagePreview s)
       (s\<lparr>isSubmitting := True\<rparr>)"
  by (simp add: handleSubmit_def submitBegin_valid)

lemma handleSubmit_invalid:
  "\<not> snd (validateForm s) \<Longrightarrow>
   handleSubmit delayResolves addItemReturns s = s\<lparr>toasts := toasts s @ fst (validateForm s)\<rparr>"
  by (simp add: handleSubmit_def submitBegin_invalid)

text \<open>
  Claim C6. For every form state that passes validation, the record that a submission
  whose delay resolves hands to the store's \<open>addItem\<close> is the one call added to the log; its
  \<open>escrowBuyerAddress\<close> is the form's buyer-address value when the form's listing type is
  escrow, and is absent (\<open>undefined\<close>) when it is standard.
\<close>

theorem handleSubmit_escrowBuyerAddress:
  assumes "snd (validateForm s)"
  shows "addItemCalls (handleSubmit True addItemReturns s) =
           addItemCalls s @ [newListing (formData s) (imagePreview s)] \<and>
         (form_listingType (formData s) = Escrow \<longrightarrow>
            escrowBuyerAddress (newListing (formData s) (imagePreview s)) =
              Some (form_escrowBuyerAddress (formData s))) \<and>
         (form_listingType (formData s) = Standard \<longrightarrow>
            escrowBuyerAddress (newListing (formData s) (imagePreview s)) = None)"
  using assms
  by (simp add: handleSubmit_valid submitResume_def submitCatch_def submitFinally_def
      newListing_def Let_def)

text \<open>
  Claim C6 at the escrow example and at the standard example.
\<close>

theorem handleSubmit_escrowBuyerAddress_witness:
  "map escrowBuyerAddress (addItemCalls (handleSubmit True (\<lambda>item. True) exampleState)) =
     [Some exampleAddress] \<and>
   map escrowBuyerAddress (addItemCalls (handleSubmit True (\<lambda>item. True) standardState)) =
     [None]"
proof -
  have 1: "snd (validateForm exampleState)" by (simp add: validateForm_exampleState)
  have 2: "snd (validateForm standardState)" by (simp add: validateForm_standardState)
  have e: "form_listingType (formData exampleState) = Escrow"
    "form_escrowBuyerAddress (formData exampleState) = exampleAddress"
    "addItemCalls exampleState = []"
    by (simp_all add: exampleState_def exampleForm_def)
  have t: "form_listingType (formData standardState) = Standard"
    "addItemCalls standardState = []"
    by (simp_all add: standardState_def exampleState_def exampleForm_def)
  have a: "map escrowBuyerAddress (addItemCalls (handleSubmit True (\<lambda>item. True) exampleState)) =
     [Some exampleAddress]"
    using handleSubmit_escrowBuyerAddress [OF 1, of "\<lambda>item. True"] e by simp
  have b: "map escrowBuyerAddress (addItemCalls (handleSubmit True (\<lambda>item. True) standardState)) =
     [None]"
    using handleSubmit_escrowBuyerAddress [OF 2, of "\<lambda>item. True"] t by simp
  from a b show ?thesis by (rule conjI)
qed

text \<open>
  Claim C7. When validation has passed and the submission step fails (the awaited delay
  rejects, or \<open>addItem\<close> throws), the failure is caught and reported by one error
  notification; the form data, the selected image and its preview are what they were
  before the submission, the creation surface is as open as it was, and the submitting flag
  is down again, so the user can retry.
\<close>

theorem handleSubmit_failure:
  assumes "snd (validateForm s)"
    and "\<not> delayResolves \<or> \<not> addItemReturns (newListing (formData s) (imagePreview s))"
  shows "toasts (handleSubmit delayResolves addItemReturns s) =
           toasts s @ [ToastError ''Failed to create listing. Please try again.''] \<and>
         formData (handleSubmit delayResolves addItemReturns s) = formData s \<and>
         selectedImage (handleSubmit delayResolves addItemReturns s) = selectedImage s \<and>
         imagePreview (handleSubmit delayResolves addItemReturns s) = imagePreview s \<and>
         isOpen (handleSubmit delayResolves addItemReturns s) = isOpen s \<and>
         \<not> isSubmitting (handleSubmit delayResolves addItemReturns s)"
  using assms
  by (auto simp add: handleSubmit_valid submitResume_def submitCatch_def submitFinally_def Let_def)

text \<open>
  Claim C7 at the example state, once with a throwing \<open>addItem\<close> and once with a
  rejected delay.
\<close>

theorem handleSubmit_failure_witness:
  "toasts (handleSubmit True (\<lambda>item. False) exampleState) =
     [ToastError ''Failed to create listing. Please try again.''] \<and>
   formData (handleSubmit True (\<lambda>item. False) exampleState) = exampleForm \<and>
   isOpen (handleSubmit True (\<lambda>item. False) exampleState) \<and>
   formData (handleSubmit False (\<lambda>item. True) exampleState) = exampleForm \<and>
   isOpen (handleSubmit False (\<lambda>item. True) exampleState)"
proof -
  have 1: "snd (validateForm exampleState)" by (simp add: validateForm_exampleState)
  have e: "formData exampleState = exampleForm" "isOpen exampleState" "toasts exampleState = []"
    by (simp_all add: exampleState_def)
  show ?thesis
    using handleSubmit_failure [OF 1, of True "\<lambda>item. False"]
      handleSubmit_failure [OF 1, of False "\<lambda>item. True"] e
    by simp
qed

text \<open>
  Claim C9. While the submitting flag is set, the close handler returns the state as it
  is: the surface stays open, no form state is reset and no reset is scheduled, however
  often the handler is invoked. The flag is set in the state that a submission passing
  validation leaves at its \<open>await\<close>, so this covers the whole time a submission is in
  flight.
\<close>

theorem handleClose_while_submitting:
  "(isSubmitting s \<longrightarrow> handleClose s = s \<and> (handleClose ^^ n) s = s) \<and>
   (snd (validateForm s) \<longrightarrow>
      isSubmitting (fst (submitBegin s)) \<and>
      (handleClose ^^ n) (fst (submitBegin s)) = fst (submitBegin s))"
proof -
  have once: "handleClose t = t" if "isSubmitting t" for t
    using that by (simp add: handleClose_def)
  have many: "(handleClose ^^ n) t = t" if "isSubmitting t" for t
    using that by (induction n) (simp_all add: once)
  have "isSubmitting (fst (submitBegin s))" if "snd (validateForm s)"
    using that by (simp add: submitBegin_valid)
  with once many show ?thesis by blast
qed

text \<open>
  Claim C9 at the example state in flight.
\<close>

theorem handleClose_while_submitting_witness:
  "handleClose (exampleState\<lparr>isSubmitting := True\<rparr>) = exampleState\<lparr>isSubmitting := True\<rparr> \<and>
   isOpen ((handleClose ^^ 3) (fst (submitBegin exampleState))) \<and>
   formData ((handleClose ^^ 3) (fst (submitBegin exampleState))) = exampleForm"
proof -
  have 1: "snd (validateForm exampleState)" by (simp add: validateForm_exampleState)
  have 2: "isSubmitting (exampleState\<lparr>isSubmitting := True\<rparr>)" by simp
  have 3: "fst (submitBegin exampleState) = exampleState\<lparr>isSubmitting := True\<rparr>"
    by (simp add: submitBegin_valid 1)
  have e: "formData exampleState = exampleForm" "isOpen exampleState"
    by (simp_all add: exampleState_def)
  show ?thesis
    using handleClose_while_submitting [of "exampleState\<lparr>isSubmitting := True\<rparr>" 3]
      handleClose_while_submitting [of exampleState 3] 1 2 3 e
    by simp
qed

section \<open>Filtering the listings\<close>










text \<open>
  The example stores under the filter.
\<close>

lemmas lower_defs = toLowerCase_def finalSigma_def isCased_def isCaseIgnorable_def
  toLowerUnit_def isUpperCase_def utf16_def



lemma filteredItems_seller:
  "filteredItems sellerHooks [] ''collectibles'' = [coinItem]"
  by (simp add: filteredItems_def sellerHooks_def cardItem_def coinItem_def songItem_def
      lower_defs startsWith_def Let_def)

lemma toLowerCase_examples:
  "toLowerCase (title streetItem) = [0x3BF, 0x3B4, 0x3BF, 0x3C2]"
  "toLowerCase sigmaQuery = [0x3C3]"
  "toLowerCase [0x130] = [0x69, 0x307]"
  by (simp_all add: streetItem_def sigmaQuery_def lower_defs)





section \<open>The sort\<close>

text \<open>
  The sort permutes its input. Where the comparator's sign agrees with the order of a key,
  the result is the stable sort by that key; where the comparator only ever answers zero,
  the input comes back as it is.
\<close>

lemma mset_insertSorted: "mset (insertSorted cmp x ys) = add_mset x (mset ys)"
  by (induction ys) auto

lemma mset_arraySort: "mset (arraySort cmp xs) = mset xs"
  by (induction xs) (auto simp: arraySort_def mset_insertSorted)

lemma set_arraySort: "set (arraySort cmp xs) = set xs"
  by (metis mset_arraySort set_mset_mset)

lemma insertSorted_insort_key:
  assumes "\<And>y. y \<in> set ys \<Longrightarrow> (sortCompare cmp x y \<le> 0) = (key x \<le> key y)"
  shows "insertSorted cmp x ys = insort_key key x ys"
  using assms by (induction ys) auto

lemma arraySort_sort_key:
  assumes "\<And>x y. x \<in> set xs \<Longrightarrow> y \<in> set xs \<Longrightarrow>
             (sortCompare cmp x y \<le> 0) = (key x \<le> key y)"
  shows "arraySort cmp xs = sort_key key xs"
  using assms
proof (induction xs)
  case Nil
  show ?case by (simp add: arraySort_def)
next
  case (Cons x xs)
  have ih: "arraySort cmp xs = sort_key key xs"
    by (rule Cons.IH) (simp add: Cons.prems)
  have "insertSorted cmp x (sort_key key xs) = insort_key key x (sort_key key xs)"
    by (rule insertSorted_insort_key) (simp add: Cons.prems)
  with ih show ?case by (simp add: arraySort_def)
qed

lemma arraySort_equal: 
  assumes "\<And>x y. sortCompare cmp x y = 0"
  shows "arraySort cmp xs = xs"
proof (induction xs)
  case Nil
  show ?case by (simp add: arraySort_def)
next
  case (Cons x xs)
  then have "arraySort cmp (x # xs) = insertSorted cmp x xs" by (simp add: arraySort_def)
  also have "\<dots> = x # xs" by (cases xs) (simp_all add: assms)
  finally show ?case .
qed

lemma set_sortedItems: "set (sortedItems sortBy xs) = set xs"
  by (simp add: sortedItems_def set_arraySort)

section \<open>Rounding and the sign of a difference\<close>

text \<open>
  What the proofs need of binary64 arithmetic: a rounded value lies on the grid, and
  rounding a value at least as large as the least subnormal keeps its sign. Hence the
  difference of two doubles has the sign of their comparison, and the comparator of the
  sort orders doubles as \<open>numKey\<close> does.
\<close>

lemma ipow_powi: "b \<noteq> 0 \<Longrightarrow> ipow b e = b powi e"
  by (simp add: ipow_def power_int_def power_inverse divide_inverse)

lemma ipow_2: "ipow 2 e = 2 powi e"
  by (simp add: ipow_powi)

lemma ipow_pos: "0 < b \<Longrightarrow> 0 < ipow b e"
  by (simp add: ipow_def)

lemma bitLength_upper: "n < 2 ^ bitLength n"
proof (induction n rule: bitLength.induct)
  case (1 n)
  show ?case
  proof (cases "n \<le> 0")
    case True
    then have "n < 1" by simp
    also have "(1::int) \<le> 2 ^ bitLength n" by simp
    finally show ?thesis .
  next
    case False
    then have "n div 2 < 2 ^ bitLength (n div 2)" by (rule "1.IH")
    then have "n < 2 * 2 ^ bitLength (n div 2)" by linarith
    with False show ?thesis by (simp add: bitLength.simps [of n])
  qed
qed

lemma bitLength_lower: "0 < n \<Longrightarrow> 2 ^ (bitLength n - 1) \<le> n"
proof (induction n rule: bitLength.induct)
  case (1 n)
  then have pos: "\<not> n \<le> 0" by simp
  show ?case
  proof (cases "n div 2 \<le> 0")
    case True
    with pos have "n div 2 = 0" by simp
    then have "bitLength n = 1"
      using pos by (simp add: bitLength.simps [of n] bitLength.simps [of 0])
    with pos show ?thesis by simp
  next
    case False
    then have ih: "2 ^ (bitLength (n div 2) - 1) \<le> n div 2"
      using "1.IH" pos by simp
    from False have "bitLength (n div 2) = Suc (bitLength (n div 2) - 1)"
      by (simp add: bitLength.simps [of "n div 2"])
    then have "(2::int) ^ bitLength (n div 2) = 2 * 2 ^ (bitLength (n div 2) - 1)"
      by (metis power_Suc)
    also have "\<dots> \<le> 2 * (n div 2)" using ih by simp
    also have "\<dots> \<le> n" by simp
    finally show ?thesis using pos by (simp add: bitLength.simps [of n])
  qed
qed


lemma floorLog2_le:
  assumes "0 < a"
  shows "ipow 2 (floorLog2 a) \<le> a"
proof -
  obtain n d where nd: "quotient_of a = (n, d)" by (cases "quotient_of a")
  then have d: "0 < d" by (rule quotient_of_denom_pos)
  from nd have a: "a = of_int n / of_int d" by (rule quotient_of_div)
  with assms d have n: "0 < n" by (simp add: zero_less_divide_iff)
  define k where "k = int (bitLength n) - int (bitLength d)"
  have fl: "floorLog2 a = (if ipow 2 k \<le> a then k else k - 1)"
    by (simp add: floorLog2_def nd k_def Let_def)
  have low: "ipow 2 (k - 1) \<le> a"
  proof -
    from n have bn: "1 \<le> bitLength n" by (simp add: bitLength.simps [of n])
    then have "k - 1 = int (bitLength n - 1) - int (bitLength d)"
      by (simp add: k_def of_nat_diff)
    then have "ipow 2 (k - 1) = 2 powi (int (bitLength n - 1) - int (bitLength d))"
      by (simp add: ipow_powi)
    also have "\<dots> = 2 ^ (bitLength n - 1) / 2 ^ bitLength d"
      by (simp add: power_int_diff)
    also have "\<dots> \<le> of_int n / 2 ^ bitLength d"
    proof -
      have "(2::int) ^ (bitLength n - 1) \<le> n" using n by (rule bitLength_lower)
      then have "(of_int ((2::int) ^ (bitLength n - 1)) :: rat) \<le> of_int n"
        by (simp only: of_int_le_iff)
      then show ?thesis by (simp add: divide_right_mono)
    qed
    also have "\<dots> \<le> of_int n / of_int d"
    proof -
      have "d < 2 ^ bitLength d" by (rule bitLength_upper)
      then have "(of_int d :: rat) < of_int ((2::int) ^ bitLength d)"
        by (simp only: of_int_less_iff)
      then have "(of_int d :: rat) \<le> 2 ^ bitLength d" by simp
      moreover have "(0::rat) < of_int d" using d by simp
      moreover have "(0::rat) \<le> of_int n" using n by simp
      ultimately show ?thesis by (simp add: frac_le)
    qed
    finally show ?thesis using a by simp
  qed
  show ?thesis using low by (simp add: fl)
qed

lemma roundHalfEven_nonneg: "0 \<le> x \<Longrightarrow> 0 \<le> roundHalfEven x"
proof -
  assume "0 \<le> x"
  then have "0 \<le> \<lfloor>x\<rfloor>" by simp
  then show ?thesis by (simp add: roundHalfEven_def Let_def)
qed

lemma roundHalfEven_ge1:
  assumes "1 / 2 < x"
  shows "1 \<le> roundHalfEven x"
proof (cases "1 \<le> \<lfloor>x\<rfloor>")
  case True
  then show ?thesis by (simp add: roundHalfEven_def Let_def)
next
  case False
  then have "\<lfloor>x\<rfloor> < 1" by simp
  moreover from assms have "0 \<le> x" by simp
  then have "0 \<le> \<lfloor>x\<rfloor>" by (simp only: zero_le_floor)
  ultimately have "\<lfloor>x\<rfloor> = 0" by linarith
  with assms show ?thesis by (simp add: roundHalfEven_def Let_def)
qed


lemma roundDouble_shape:
  assumes "q \<noteq> 0"
  obtains e m where "- 1022 \<le> e" and "0 \<le> m" and "leastSubnormal \<le> \<bar>q\<bar> \<longrightarrow> 1 \<le> m"
    and "roundDouble q =
           (if ipow 2 1024 \<le> of_int m * ipow 2 (e - 52)
            then (if 0 < q then PosInf else NegInf)
            else Fin (sgn q * (of_int m * ipow 2 (e - 52))))"
proof -
  define e where "e = max (floorLog2 \<bar>q\<bar>) (- 1022)"
  define ulp where "ulp = ipow 2 (e - 52)"
  define m where "m = roundHalfEven (\<bar>q\<bar> / ulp)"
  have ulp: "0 < ulp" by (simp add: ulp_def ipow_pos)
  have e: "- 1022 \<le> e" by (simp add: e_def)
  have m: "0 \<le> m" unfolding m_def using ulp by (intro roundHalfEven_nonneg) simp
  have big: "1 \<le> m" if q: "leastSubnormal \<le> \<bar>q\<bar>"
  proof -
    have "ulp \<le> \<bar>q\<bar>"
    proof (cases "floorLog2 \<bar>q\<bar> \<le> - 1022")
      case True
      then have "e = - 1022" by (simp add: e_def)
      then have "ulp = leastSubnormal" by (simp add: ulp_def leastSubnormal_def)
      with q show ?thesis by simp
    next
      case False
      then have "e = floorLog2 \<bar>q\<bar>" by (simp add: e_def)
      moreover have "ipow 2 (floorLog2 \<bar>q\<bar>) \<le> \<bar>q\<bar>"
        using assms by (intro floorLog2_le) simp
      moreover have "ipow 2 (e - 52) \<le> ipow 2 e"
      proof -
        have pos: "(0::rat) < 2 powi e" by (simp add: zero_less_power_int)
        have "ipow 2 (e - 52) = 2 powi e / 2 ^ 52"
          by (simp add: ipow_powi power_int_diff)
        also have "\<dots> \<le> 2 powi e / 1"
          using pos by (intro divide_left_mono) simp_all
        also have "\<dots> = ipow 2 e" by (simp add: ipow_powi)
        finally show ?thesis .
      qed
      ultimately show ?thesis by (simp add: ulp_def)
    qed
    with ulp have "1 \<le> \<bar>q\<bar> / ulp" by (simp add: le_divide_eq)
    then have "1 / 2 < \<bar>q\<bar> / ulp" by linarith
    then show ?thesis unfolding m_def by (rule roundHalfEven_ge1)
  qed
  have "roundDouble q =
          (if ipow 2 1024 \<le> of_int m * ipow 2 (e - 52)
           then (if 0 < q then PosInf else NegInf)
           else Fin (sgn q * (of_int m * ipow 2 (e - 52))))"
    using assms by (simp add: roundDouble_def Let_def e_def ulp_def m_def)
  with e m big show ?thesis using that by blast
qed

lemma onGrid_roundDouble: "onGrid (roundDouble q)"
proof (cases "q = 0")
  case True
  then show ?thesis by (simp add: roundDouble_def onGrid_def)
next
  case False
  then obtain e m where e: "- 1022 \<le> e"
    and r: "roundDouble q =
           (if ipow 2 1024 \<le> of_int m * ipow 2 (e - 52)
            then (if 0 < q then PosInf else NegInf)
            else Fin (sgn q * (of_int m * ipow 2 (e - 52))))"
    by (rule roundDouble_shape)
  have eq: "e - 52 - (- 1074) = int (nat (e + 1022))" using e by simp
  have "ipow 2 (e - 52) / leastSubnormal = 2 powi (e - 52) / 2 powi (- 1074)"
    by (simp only: ipow_2 leastSubnormal_def)
  also have "\<dots> = 2 powi (e - 52 - (- 1074))"
    by (rule power_int_diff [symmetric]) simp
  also have "\<dots> = 2 powi (int (nat (e + 1022)))" by (simp only: eq)
  also have "\<dots> = 2 ^ nat (e + 1022)" by (rule power_int_of_nat)
  finally have u: "ipow 2 (e - 52) / leastSubnormal = of_int (2 ^ nat (e + 1022))" by simp
  have "sgn q * (of_int m * ipow 2 (e - 52)) / leastSubnormal =
        sgn q * of_int m * (ipow 2 (e - 52) / leastSubnormal)" by simp
  also have "\<dots> = of_int (sgn (if 0 < q then 1 else - 1) * m * 2 ^ nat (e + 1022))"
    using False by (simp add: u sgn_if)
  finally have "sgn q * (of_int m * ipow 2 (e - 52)) / leastSubnormal \<in> \<int>"
    by (simp only: Ints_of_int)
  then show ?thesis by (simp add: r onGrid_def)
qed

lemma roundDouble_sign:
  assumes "leastSubnormal \<le> \<bar>q\<bar>"
  shows "signOf (roundDouble q) = (if 0 < q then 1 else - 1)"
proof -
  have ls: "0 < leastSubnormal" by (simp add: leastSubnormal_def ipow_pos)
  with assms have q: "q \<noteq> 0" by auto
  then obtain e m where m: "leastSubnormal \<le> \<bar>q\<bar> \<longrightarrow> 1 \<le> m"
    and r: "roundDouble q =
           (if ipow 2 1024 \<le> of_int m * ipow 2 (e - 52)
            then (if 0 < q then PosInf else NegInf)
            else Fin (sgn q * (of_int m * ipow 2 (e - 52))))"
    by (rule roundDouble_shape)
  from m assms have "1 \<le> m" by simp
  then have "(0::rat) < of_int m" by simp
  then have v: "0 < of_int m * ipow 2 (e - 52)" by (simp add: ipow_pos)
  show ?thesis
  proof (cases "0 < q")
    case True
    with v show ?thesis by (simp add: r signOf_def)
  next
    case False
    with q have "q < 0" by simp
    with v show ?thesis by (simp add: r signOf_def mult_less_0_iff)
  qed
qed

lemma leastSubnormal_pos: "0 < leastSubnormal"
  by (simp add: leastSubnormal_def ipow_pos)

lemma onGrid_parseFloat: "onGrid (parseFloat s)"
proof -
  have "onGrid NaN" "onGrid PosInf" "onGrid NegInf" by (simp_all add: onGrid_def)
  then show ?thesis
    by (simp add: parseFloat_def Let_def onGrid_roundDouble split: prod.split option.split)
qed

lemma onGrid_of_int: "onGrid (Fin (of_int i))"
proof -
  define n :: nat where "n = 1074"
  have ls: "leastSubnormal = 1 / 2 ^ n" by (simp add: leastSubnormal_def ipow_def n_def)
  have "of_int i / leastSubnormal = of_int (i * 2 ^ n)" unfolding ls by simp
  then have "of_int i / leastSubnormal \<in> \<int>" by (simp only: Ints_of_int)
  then show ?thesis by (simp add: onGrid_def)
qed

lemma grid_gap:
  assumes "a / leastSubnormal \<in> \<int>" and "b / leastSubnormal \<in> \<int>" and "a \<noteq> b"
  shows "leastSubnormal \<le> \<bar>a - b\<bar>"
proof -
  have "(a - b) / leastSubnormal = a / leastSubnormal - b / leastSubnormal"
    by (simp add: diff_divide_distrib)
  with assms have "(a - b) / leastSubnormal \<in> \<int>" by simp
  then obtain k :: int where k: "(a - b) / leastSubnormal = of_int k" by (rule Ints_cases)
  with assms leastSubnormal_pos have "k \<noteq> 0" by auto
  then have "1 \<le> \<bar>k\<bar>" by simp
  then have "(1::rat) \<le> \<bar>of_int k\<bar>" by (simp only: of_int_abs [symmetric] of_int_1_le_iff)
  then have "1 \<le> \<bar>(a - b) / leastSubnormal\<bar>" by (simp only: k)
  moreover have "\<bar>leastSubnormal\<bar> = leastSubnormal"
    using leastSubnormal_pos by (rule abs_of_pos)
  then have "\<bar>(a - b) / leastSubnormal\<bar> = \<bar>a - b\<bar> / leastSubnormal"
    by (simp only: abs_divide)
  ultimately have "1 \<le> \<bar>a - b\<bar> / leastSubnormal" by (simp only:)
  then show ?thesis using leastSubnormal_pos by (simp add: le_divide_eq)
qed

lemma signOf_sub:
  assumes "onGrid x" and "onGrid y" and "x \<noteq> NaN" and "y \<noteq> NaN"
  shows "signOf (num_sub x y) =
           (if numKey x < numKey y then - 1 else if numKey x = numKey y then 0 else 1)"
proof (cases x)
  case NaN
  with assms show ?thesis by simp
next
  case NegInf
  with assms show ?thesis by (cases y) (simp_all add: signOf_def numKey_def)
next
  case PosInf
  with assms show ?thesis by (cases y) (simp_all add: signOf_def numKey_def)
next
  case (Fin a)
  show ?thesis
  proof (cases y)
    case (Fin b)
    show ?thesis
    proof (cases "a = b")
      case True
      then show ?thesis
        using \<open>x = Fin a\<close> \<open>y = Fin b\<close> by (simp add: roundDouble_def signOf_def numKey_def)
    next
      case False
      with assms \<open>x = Fin a\<close> \<open>y = Fin b\<close> have "leastSubnormal \<le> \<bar>a - b\<bar>"
        by (intro grid_gap) (simp_all add: onGrid_def)
      then have "signOf (roundDouble (a - b)) = (if 0 < a - b then 1 else - 1)"
        by (rule roundDouble_sign)
      with False show ?thesis
        using \<open>x = Fin a\<close> \<open>y = Fin b\<close> by (auto simp add: numKey_def)
    qed
  qed (use assms Fin in \<open>simp_all add: signOf_def numKey_def\<close>)
qed

lemma sortCompare_signOf: "sortCompare cmp x y = signOf (cmp x y)"
  by (simp add: sortCompare_def signOf_def)

lemma sortCompare_sub:
  assumes "onGrid (f x)" and "onGrid (f y)" and "f x \<noteq> NaN" and "f y \<noteq> NaN"
  shows "(sortCompare (\<lambda>a b. num_sub (f a) (f b)) x y \<le> 0) = (numKey (f x) \<le> numKey (f y))"
  using signOf_sub [OF assms]
  by (auto simp add: sortCompare_signOf)

lemma numKeyDesc_le:
  assumes "x \<noteq> NaN" and "y \<noteq> NaN"
  shows "(numKeyDesc x \<le> numKeyDesc y) = (numKey y \<le> numKey x)"
  using assms by (cases x; cases y) (simp_all add: numKey_def numKeyDesc_def)

lemma numKey_le:
  assumes "x \<noteq> NaN" and "y \<noteq> NaN"
  shows "(numKey x \<le> numKey y) = num_le x y"
  using assms by (cases x; cases y) (simp_all add: numKey_def)

lemma numKey_inj:
  assumes "numKey x = numKey y"
  shows "x = y"
  using assms by (cases x; cases y) (simp_all add: numKey_def)

section \<open>Sorting the listings\<close>

lemma sortCompare_int:
  "(sortCompare (\<lambda>a b. num_sub (Fin (of_int (f b))) (Fin (of_int (f a)))) x y \<le> 0) =
   (- f x \<le> - f y)"
proof -
  have "signOf (num_sub (Fin (of_int (f y))) (Fin (of_int (f x)))) =
        (if numKey (Fin (of_int (f y))) < numKey (Fin (of_int (f x))) then - 1
         else if numKey (Fin (of_int (f y))) = numKey (Fin (of_int (f x))) then 0 else 1)"
    by (rule signOf_sub) (simp_all add: onGrid_of_int)
  then show ?thesis by (auto simp add: sortCompare_signOf numKey_def)
qed

lemma compareItems_popular:
  "compareItems ''popular'' = (\<lambda>a b. num_sub (Fin (of_int (likes b))) (Fin (of_int (likes a))))"
  by (intro ext) (simp add: compareItems_def)

lemma compareItems_recent:
  "compareItems ''recent'' =
     (\<lambda>a b. num_sub (Fin (of_int (createdAt b))) (Fin (of_int (createdAt a))))"
  by (intro ext) (simp add: compareItems_def)

lemma compareItems_price_low:
  "compareItems ''price-low'' = (\<lambda>a b. num_sub (priceOf a) (priceOf b))"
  by (intro ext) (simp add: compareItems_def priceOf_def)

lemma compareItems_price_high:
  "compareItems ''price-high'' = (\<lambda>a b. num_sub (priceOf b) (priceOf a))"
  by (intro ext) (simp add: compareItems_def priceOf_def)

lemma compareItems_other:
  "sortBy \<notin> {''recent'', ''price-low'', ''price-high'', ''popular''} \<Longrightarrow>
   compareItems sortBy = (\<lambda>a b. Fin 0)"
  by (intro ext) (simp add: compareItems_def)

lemma sortedItems_popular: "sortedItems ''popular'' xs = sort_key (\<lambda>i. - likes i) xs"
  unfolding sortedItems_def
  by (rule arraySort_sort_key) (simp only: compareItems_popular sortCompare_int)

lemma sortedItems_recent: "sortedItems ''recent'' xs = sort_key (\<lambda>i. - createdAt i) xs"
  unfolding sortedItems_def
  by (rule arraySort_sort_key) (simp only: compareItems_recent sortCompare_int)

lemma sortedItems_price_low:
  assumes "\<forall>i\<in>set xs. priceOf i \<noteq> NaN"
  shows "sortedItems ''price-low'' xs = sort_key (\<lambda>i. numKey (priceOf i)) xs"
  unfolding sortedItems_def
proof (rule arraySort_sort_key)
  fix x y
  assume "x \<in> set xs" and "y \<in> set xs"
  with assms have "priceOf x \<noteq> NaN" and "priceOf y \<noteq> NaN" by simp_all
  then have "(sortCompare (\<lambda>a b. num_sub (priceOf a) (priceOf b)) x y \<le> 0) =
             (numKey (priceOf x) \<le> numKey (priceOf y))"
    by (intro sortCompare_sub) (simp_all add: priceOf_def onGrid_parseFloat)
  then show "(sortCompare (compareItems ''price-low'') x y \<le> 0) =
             (numKey (priceOf x) \<le> numKey (priceOf y))"
    by (simp only: compareItems_price_low)
qed

lemma sortedItems_price_high:
  assumes "\<forall>i\<in>set xs. priceOf i \<noteq> NaN"
  shows "sortedItems ''price-high'' xs = sort_key (\<lambda>i. numKeyDesc (priceOf i)) xs"
  unfolding sortedItems_def
proof (rule arraySort_sort_key)
  fix x y
  assume "x \<in> set xs" and "y \<in> set xs"
  with assms have n: "priceOf x \<noteq> NaN" "priceOf y \<noteq> NaN" by simp_all
  then have "(sortCompare (\<lambda>a b. num_sub (priceOf a) (priceOf b)) y x \<le> 0) =
             (numKey (priceOf y) \<le> numKey (priceOf x))"
    by (intro sortCompare_sub) (simp_all add: priceOf_def onGrid_parseFloat)
  then show "(sortCompare (compareItems ''price-high'') x y \<le> 0) =
             (numKeyDesc (priceOf x) \<le> numKeyDesc (priceOf y))"
    by (simp add: compareItems_price_high numKeyDesc_le [OF n] sortCompare_def)
qed

lemma sortedItems_other:
  assumes "sortBy \<notin> {''recent'', ''price-low'', ''price-high'', ''popular''}"
  shows "sortedItems sortBy xs = xs"
  unfolding sortedItems_def
  by (rule arraySort_equal) (simp add: compareItems_other [OF assms] sortCompare_def)

lemma sorted_popular: "sorted_wrt (\<lambda>a b. likes b \<le> likes a) (sortedItems ''popular'' xs)"
proof -
  have "sorted (map (\<lambda>i. - likes i) (sort_key (\<lambda>i. - likes i) xs))" by (rule sorted_sort_key)
  then show ?thesis by (simp add: sortedItems_popular sorted_map)
qed

lemma sorted_recent: "sorted_wrt (\<lambda>a b. createdAt b \<le> createdAt a) (sortedItems ''recent'' xs)"
proof -
  have "sorted (map (\<lambda>i. - createdAt i) (sort_key (\<lambda>i. - createdAt i) xs))"
    by (rule sorted_sort_key)
  then show ?thesis by (simp add: sortedItems_recent sorted_map)
qed

lemma sorted_price_low:
  assumes "\<forall>i\<in>set xs. priceOf i \<noteq> NaN"
  shows "sorted_wrt (\<lambda>a b. num_le (priceOf a) (priceOf b)) (sortedItems ''price-low'' xs)"
proof -
  have "sorted (map (\<lambda>i. numKey (priceOf i)) (sort_key (\<lambda>i. numKey (priceOf i)) xs))"
    by (rule sorted_sort_key)
  then have "sorted_wrt (\<lambda>a b. numKey (priceOf a) \<le> numKey (priceOf b))
               (sortedItems ''price-low'' xs)"
    by (simp add: sortedItems_price_low assms sorted_map)
  then show ?thesis
  proof (rule sorted_wrt_mono_rel [rotated])
    fix a b
    assume "a \<in> set (sortedItems ''price-low'' xs)" and "b \<in> set (sortedItems ''price-low'' xs)"
      and "numKey (priceOf a) \<le> numKey (priceOf b)"
    with assms show "num_le (priceOf a) (priceOf b)"
      by (simp add: set_sortedItems numKey_le)
  qed
qed

lemma sorted_price_high:
  assumes "\<forall>i\<in>set xs. priceOf i \<noteq> NaN"
  shows "sorted_wrt (\<lambda>a b. num_le (priceOf b) (priceOf a)) (sortedItems ''price-high'' xs)"
proof -
  have "sorted (map (\<lambda>i. numKeyDesc (priceOf i)) (sort_key (\<lambda>i. numKeyDesc (priceOf i)) xs))"
    by (rule sorted_sort_key)
  then have "sorted_wrt (\<lambda>a b. numKeyDesc (priceOf a) \<le> numKeyDesc (priceOf b))
               (sortedItems ''price-high'' xs)"
    by (simp add: sortedItems_price_high assms sorted_map)
  then show ?thesis
  proof (rule sorted_wrt_mono_rel [rotated])
    fix a b
    assume "a \<in> set (sortedItems ''price-high'' xs)" and "b \<in> set (sortedItems ''price-high'' xs)"
      and "numKeyDesc (priceOf a) \<le> numKeyDesc (priceOf b)"
    with assms show "num_le (priceOf b) (priceOf a)"
      by (simp add: set_sortedItems numKeyDesc_le numKey_le)
  qed
qed

text \<open>
  Claim C4. For every filtered list and sort key the sorted result is a rearrangement of
  the list; for \<open>recent\<close> it is in descending order of \<open>createdAt\<close>, for \<open>popular\<close> in
  descending order of \<open>likes\<close>; for \<open>price-low\<close> and \<open>price-high\<close> it is in ascending and
  descending order of the numeric value of the decimal price string, where every price of
  the list is such a string (\<open>parseFloat\<close> reads a number from it); and for any other key
  it is the filtered list as it was.
\<close>

theorem sortedItems_order:
  "mset (sortedItems sortBy xs) = mset xs \<and>
   sorted_wrt (\<lambda>a b. createdAt b \<le> createdAt a) (sortedItems ''recent'' xs) \<and>
   sorted_wrt (\<lambda>a b. likes b \<le> likes a) (sortedItems ''popular'' xs) \<and>
   ((\<forall>i\<in>set xs. priceOf i \<noteq> NaN) \<longrightarrow>
      sorted_wrt (\<lambda>a b. num_le (priceOf a) (priceOf b)) (sortedItems ''price-low'' xs) \<and>
      sorted_wrt (\<lambda>a b. num_le (priceOf b) (priceOf a)) (sortedItems ''price-high'' xs)) \<and>
   (sortBy \<notin> {''recent'', ''price-low'', ''price-high'', ''popular''} \<longrightarrow>
      sortedItems sortBy xs = xs)"
proof -
  have "mset (sortedItems sortBy xs) = mset xs" by (simp add: sortedItems_def mset_arraySort)
  then show ?thesis
    using sorted_recent sorted_popular sorted_price_low sorted_price_high sortedItems_other
    by blast
qed

text \<open>The example store under each sort key.\<close>

lemma priceOf_examples:
  "priceOf cardItem = Fin 2" "priceOf coinItem = Fin (1 / 2)" "priceOf songItem = Fin 10"
  by (simp_all add: priceOf_def cardItem_def coinItem_def songItem_def) code_simp+

lemma sortedItems_examples:
  "sortedItems ''price-low'' [cardItem, coinItem, songItem] = [coinItem, cardItem, songItem]"
  "sortedItems ''price-high'' [cardItem, coinItem, songItem] = [songItem, cardItem, coinItem]"
  "sortedItems ''popular'' [cardItem, coinItem, songItem] = [coinItem, cardItem, songItem]"
  "sortedItems ''recent'' [cardItem, coinItem, songItem] = [coinItem, songItem, cardItem]"
     apply (simp add: sortedItems_price_low priceOf_examples numKey_def)
    apply (simp add: sortedItems_price_high priceOf_examples numKeyDesc_def)
   apply (simp add: sortedItems_popular cardItem_def coinItem_def songItem_def)
  apply (simp add: sortedItems_recent cardItem_def coinItem_def songItem_def)
  done

text \<open>
  Claim C4 at the example store: the results under the four keys, each in its order, and
  the store unchanged under a key the comparator does not know.
\<close>

theorem sortedItems_order_witness:
  "sortedItems ''price-low'' [cardItem, coinItem, songItem] = [coinItem, cardItem, songItem] \<and>
   sorted_wrt (\<lambda>a b. num_le (priceOf a) (priceOf b)) [coinItem, cardItem, songItem] \<and>
   sortedItems ''price-high'' [cardItem, coinItem, songItem] = [songItem, cardItem, coinItem] \<and>
   sorted_wrt (\<lambda>a b. num_le (priceOf b) (priceOf a)) [songItem, cardItem, coinItem] \<and>
   sortedItems ''popular'' [cardItem, coinItem, songItem] = [coinItem, cardItem, songItem] \<and>
   sorted_wrt (\<lambda>a b. likes b \<le> likes a) [coinItem, cardItem, songItem] \<and>
   sortedItems ''recent'' [cardItem, coinItem, songItem] = [coinItem, songItem, cardItem] \<and>
   sorted_wrt (\<lambda>a b. createdAt b \<le> createdAt a) [coinItem, songItem, cardItem] \<and>
   sortedItems ''name'' [cardItem, coinItem, songItem] = [cardItem, coinItem, songItem]"
proof -
  have numeric: "\<forall>i\<in>set [cardItem, coinItem, songItem]. priceOf i \<noteq> NaN"
    by (simp add: priceOf_examples)
  have other: "''name'' \<notin> {''recent'', ''price-low'', ''price-high'', ''popular''}" by simp
  show ?thesis
    using sortedItems_order [of "''name''" "[cardItem, coinItem, songItem]"] numeric other
    by (simp only: sortedItems_examples) blast
qed

subsection \<open>The two price orders\<close>

text \<open>
  Ties are ties of the numbers read, not of the strings: two price strings that differ
  beyond the precision of a double denote the same number.
\<close>

lemma parseFloat_same_double:
  "parseFloat ''0.1'' = parseFloat ''0.10000000000000000001''"
  by code_simp

lemma numKeyDesc_inj:
  assumes "numKeyDesc x = numKeyDesc y"
  shows "x = y"
  using assms by (cases x; cases y) (simp_all add: numKeyDesc_def)

text \<open>
  Claim C5. For every filtered list of listings with numeric prices (every price a decimal
  string) no two of which are equal, sorting by \<open>price-high\<close> yields the reverse of
  sorting by \<open>price-low\<close>.
\<close>

theorem price_sorts_reversed:
  assumes numeric: "\<forall>i\<in>set xs. priceOf i \<noteq> NaN"
    and no_ties: "distinct (map priceOf xs)"
  shows "sortedItems ''price-high'' xs = rev (sortedItems ''price-low'' xs)"
proof -
  let ?lo = "sort_key (\<lambda>i. numKey (priceOf i)) xs"
  let ?hi = "sort_key (\<lambda>i. numKeyDesc (priceOf i)) xs"
  let ?k = "\<lambda>i. numKeyDesc (priceOf i)"
  have inj: "inj_on ?k (set xs)"
  proof (rule inj_onI)
    fix a b
    assume "a \<in> set xs" and "b \<in> set xs" and "?k a = ?k b"
    then have "priceOf a = priceOf b" by (simp add: numKeyDesc_inj)
    with no_ties \<open>a \<in> set xs\<close> \<open>b \<in> set xs\<close> show "a = b"
      by (simp add: distinct_map inj_on_def)
  qed
  from no_ties have dxs: "distinct xs" by (simp add: distinct_map)
  have set_lo: "set ?lo = set xs" and set_hi: "set ?hi = set xs" by simp_all
  have d_hi: "distinct (map ?k ?hi)"
    using inj dxs by (simp add: distinct_map set_hi)
  have d_lo: "distinct (map ?k (rev ?lo))"
    using inj dxs by (simp add: distinct_map set_lo)
  have s_hi: "sorted (map ?k ?hi)" by (rule sorted_sort_key)
  have s_lo: "sorted (map ?k (rev ?lo))"
  proof -
    have "sorted (map (\<lambda>i. numKey (priceOf i)) ?lo)" by (rule sorted_sort_key)
    then have "sorted_wrt (\<lambda>a b. numKey (priceOf a) \<le> numKey (priceOf b)) ?lo"
      by (simp add: sorted_map)
    then have "sorted_wrt (\<lambda>a b. ?k b \<le> ?k a) ?lo"
    proof (rule sorted_wrt_mono_rel [rotated])
      fix a b
      assume "a \<in> set ?lo" and "b \<in> set ?lo"
        and "numKey (priceOf a) \<le> numKey (priceOf b)"
      with numeric show "?k b \<le> ?k a" by (simp add: numKeyDesc_le)
    qed
    then show ?thesis by (simp add: sorted_map sorted_wrt_rev)
  qed
  have "set (map ?k ?hi) = set (map ?k (rev ?lo))" by (simp add: set_hi set_lo)
  with s_hi d_hi s_lo d_lo have "map ?k ?hi = map ?k (rev ?lo)"
    by (intro sorted_distinct_set_unique)
  moreover have "inj_on ?k (set ?hi \<union> set (rev ?lo))"
    using inj by (simp add: set_hi set_lo)
  ultimately have "?hi = rev ?lo" by (simp only: inj_on_map_eq_map)
  then show ?thesis
    by (simp add: sortedItems_price_low sortedItems_price_high numeric)
qed

text \<open>Claim C5 at the example store, whose three prices are numbers and differ.\<close>

theorem price_sorts_reversed_witness:
  "sortedItems ''price-high'' [cardItem, coinItem, songItem] =
     rev (sortedItems ''price-low'' [cardItem, coinItem, songItem]) \<and>
   sortedItems ''price-low'' [cardItem, coinItem, songItem] = [coinItem, cardItem, songItem]"
proof -
  have numeric: "\<forall>i\<in>set [cardItem, coinItem, songItem]. priceOf i \<noteq> NaN"
    by (simp add: priceOf_examples)
  have no_ties: "distinct (map priceOf [cardItem, coinItem, songItem])"
    by (simp add: priceOf_examples)
  from price_sorts_reversed [OF numeric no_ties] sortedItems_examples(1)
  show ?thesis by (rule conjI)
qed

section \<open>The reservation line\<close>

text \<open>
  Claim C10. The "Reserved for you" line of a listing is rendered exactly when the
  listing's \<open>escrowBuyerAddress\<close> is present (defined and not the empty string, which is
  what the guard tests) and the session is connected. Two sessions with the same
  connection state render it alike, whatever their identities and visibility policies: the
  condition compares no address. So for every listing shown whose buyer address is present,
  a connected session renders the line.
\<close>

theorem showsReservedForYou_condition:
  "showsReservedForYou h item = (truthy (escrowBuyerAddress item) \<and> isConnected h) \<and>
   (isConnected h' = isConnected h \<longrightarrow>
      showsReservedForYou h' item = showsReservedForYou h item) \<and>
   (item \<in> set (sortedItems sortBy (filteredItems h s c)) \<and>
    escrowBuyerAddress item = Some a \<and> a \<noteq> [] \<and> isConnected h \<longrightarrow>
      showsReservedForYou h item)"
  by (simp add: showsReservedForYou_def truthy_def)

text \<open>
  Claim C10 at the coin listing: it is shown to the connected seller, whose identity is not
  the listing's buyer address, and the line is rendered.
\<close>

theorem showsReservedForYou_condition_witness:
  "coinItem \<in> set (sortedItems ''recent'' (filteredItems sellerHooks [] ''collectibles'')) \<and>
   escrowBuyerAddress coinItem = Some exampleAddress \<and>
   currentUserAddress sellerHooks \<noteq> utf16 exampleAddress \<and>
   showsReservedForYou sellerHooks coinItem"
proof -
  have 1: "coinItem \<in> set (sortedItems ''recent'' (filteredItems sellerHooks [] ''collectibles''))"
    by (simp add: set_sortedItems filteredItems_seller)
  have 2: "escrowBuyerAddress coinItem = Some exampleAddress" by (simp add: coinItem_def)
  have 3: "currentUserAddress sellerHooks \<noteq> utf16 exampleAddress"
    by (simp add: sellerHooks_def exampleAddress_def utf16_def)
  have 4: "isConnected sellerHooks" by (simp add: sellerHooks_def)
  have "showsReservedForYou sellerHooks coinItem"
    using showsReservedForYou_condition
      [of sellerHooks coinItem sellerHooks "''recent''" "[]" "''collectibles''" exampleAddress]
      1 2 4 exampleAddress_not_Nil
    by blast
  with 1 2 3 show ?thesis by blast
qed

end
